theory Spec2Isabelle
  imports Complex_Main
begin

section \<open>Host (Go) types and values, as package reflect shows them\<close>

text \<open>
  luar.go never touches a Go value directly: everything goes through package reflect.
  The model therefore has reflect's view of the world: a \<open>kind\<close>, a type descriptor
  \<open>gtype\<close>, and a value \<open>gval\<close> read together with its type.
\<close>

datatype kind =
    InvalidK | BoolK | IntK | Int8K | Int16K | Int32K | Int64K
  | UintK | Uint8K | Uint16K | Uint32K | Uint64K | UintptrK
  | Float32K | Float64K | Complex64K | Complex128K
  | ArrayK | ChanK | FuncK | InterfaceK | MapK | PtrK | SliceK | StringK | StructK | UnsafePointerK

text \<open>The value of the constant \<open>reflect.<Kind>\<close> (kinds are numbered by iota).\<close>

fun kind_index :: "kind \<Rightarrow> nat" where
  "kind_index InvalidK = 0" | "kind_index BoolK = 1" | "kind_index IntK = 2"
| "kind_index Int8K = 3" | "kind_index Int16K = 4" | "kind_index Int32K = 5"
| "kind_index Int64K = 6" | "kind_index UintK = 7" | "kind_index Uint8K = 8"
| "kind_index Uint16K = 9" | "kind_index Uint32K = 10" | "kind_index Uint64K = 11"
| "kind_index UintptrK = 12" | "kind_index Float32K = 13" | "kind_index Float64K = 14"
| "kind_index Complex64K = 15" | "kind_index Complex128K = 16" | "kind_index ArrayK = 17"
| "kind_index ChanK = 18" | "kind_index FuncK = 19" | "kind_index InterfaceK = 20"
| "kind_index MapK = 21" | "kind_index PtrK = 22" | "kind_index SliceK = 23"
| "kind_index StringK = 24" | "kind_index StructK = 25" | "kind_index UnsafePointerK = 26"

text \<open>
  A type is a predeclared type (\<open>bool\<close>, \<open>int\<close>, ..., \<open>string\<close>), a defined type
  (\<open>type N U\<close>: its name and its underlying type), or a type literal. A struct field has
  a name, the value of the \<open>lua\<close> key of its tag (empty when there is none), whether it
  is exported, and a type. Embedded fields are not modelled.
\<close>

datatype gtype =
    Predeclared kind
  | Named string gtype
  | SliceOf gtype
  | ArrayOf nat gtype
  | MapOf gtype gtype
  | PtrTo gtype
  | StructOf "sfield list"
  | InterfaceOf "string list"
  | ChanOf gtype
  | FuncOf "gtype list" bool "gtype list"
and sfield = Field (fname: string) (ftag: string) (fexported: bool) (ftype: gtype)

fun kindOf :: "gtype \<Rightarrow> kind" where
  "kindOf (Predeclared k) = k"
| "kindOf (Named n u) = kindOf u"
| "kindOf (SliceOf t) = SliceK"
| "kindOf (ArrayOf n t) = ArrayK"
| "kindOf (MapOf k t) = MapK"
| "kindOf (PtrTo t) = PtrK"
| "kindOf (StructOf fs) = StructK"
| "kindOf (InterfaceOf ms) = InterfaceK"
| "kindOf (ChanOf t) = ChanK"
| "kindOf (FuncOf ins v outs) = FuncK"

text \<open>The underlying type: defined types are unfolded.\<close>

fun underlying :: "gtype \<Rightarrow> gtype" where
  "underlying (Named n u) = underlying u"
| "underlying t = t"

text \<open>
  \<open>t.Elem()\<close>, \<open>t.Key()\<close> and the fields of a struct type. reflect panics when the type
  has no element type; the callers below only ask where the kind has been checked, and
  the functions are total for HOL's sake.
\<close>

fun elemT :: "gtype \<Rightarrow> gtype" where
  "elemT (Named n u) = elemT u"
| "elemT (SliceOf t) = t"
| "elemT (ArrayOf n t) = t"
| "elemT (MapOf k t) = t"
| "elemT (PtrTo t) = t"
| "elemT (ChanOf t) = t"
| "elemT t = Predeclared InvalidK"

fun keyT :: "gtype \<Rightarrow> gtype" where
  "keyT (Named n u) = keyT u"
| "keyT (MapOf k t) = k"
| "keyT t = Predeclared InvalidK"

fun fieldsT :: "gtype \<Rightarrow> sfield list" where
  "fieldsT (Named n u) = fieldsT u"
| "fieldsT (StructOf fs) = fs"
| "fieldsT t = []"

fun arrayLen :: "gtype \<Rightarrow> nat" where
  "arrayLen (Named n u) = arrayLen u"
| "arrayLen (ArrayOf n t) = n"
| "arrayLen t = 0"

text \<open>
  Values. A slice is its data pointer and its elements (the nil slice has pointer 0), a
  map its header's address and its entries in the order a \<open>range\<close> visits them (the nil
  map has address 0), a pointer its address and the value it points to (\<open>VInvalid\<close>
  under the nil pointer, which is what \<open>Elem\<close> returns there). An interface value holds
  a dynamic type and a value, or is nil. The addresses are what \<open>Value.Pointer\<close>
  returns. Values are finite trees: sharing shows as equal addresses, and a cyclic
  structure has no representation here.
  Floating-point numbers are carried as the real number they denote; NaN and the
  infinities are not modelled.
\<close>

datatype gval =
    VInvalid
  | VBool bool
  | VInt int
  | VUint int
  | VFloat real
  | VComplex real real
  | VString string
  | VSlice nat "gval list"
  | VArray "gval list"
  | VMap nat "(gval \<times> gval) list"
  | VStruct "gval list"
  | VPtr nat gval
  | VIfaceNil
  | VIface gtype gval
  | VChan nat
  | VFunc nat
  | VUnsafePointer nat

text \<open>
  A \<open>reflect.Value\<close>: the type, the value, and the read-only flag that reflect sets on
  what was reached through an unexported struct field (\<open>CanInterface\<close> and \<open>CanSet\<close>
  are false there).
\<close>

type_synonym rvalue = "gtype \<times> gval \<times> bool"

definition invalidValue :: rvalue where
  "invalidValue = (Predeclared InvalidK, VInvalid, False)"

fun isValid :: "rvalue \<Rightarrow> bool" where
  "isValid (t, v, ro) = (v \<noteq> VInvalid)"

text \<open>\<open>reflect.ValueOf(x)\<close> for an interface value \<open>x\<close>.\<close>

fun valueOf :: "gval \<Rightarrow> rvalue" where
  "valueOf (VIface t v) = (t, v, False)"
| "valueOf v = invalidValue"

text \<open>\<open>v.IsNil()\<close>: defined on six kinds (and on unsafe pointers), a panic elsewhere.\<close>

fun valIsNil :: "gval \<Rightarrow> bool" where
  "valIsNil (VSlice p xs) = (p = 0)"
| "valIsNil (VMap p kvs) = (p = 0)"
| "valIsNil (VPtr p v) = (p = 0)"
| "valIsNil VIfaceNil = True"
| "valIsNil (VChan p) = (p = 0)"
| "valIsNil (VFunc p) = (p = 0)"
| "valIsNil (VUnsafePointer p) = (p = 0)"
| "valIsNil v = False"

definition nillableKind :: "kind \<Rightarrow> bool" where
  "nillableKind k = (k \<in> {ChanK, FuncK, InterfaceK, MapK, PtrK, SliceK, UnsafePointerK})"

text \<open>\<open>v.Elem()\<close> on a pointer, as the loops \<open>for val.Kind() == reflect.Ptr\<close> use it.\<close>

fun ptrElem :: "rvalue \<Rightarrow> rvalue" where
  "ptrElem (t, VPtr p v, ro) = (if v = VInvalid then invalidValue else (elemT t, v, ro))"
| "ptrElem (t, v, ro) = invalidValue"

text \<open>\<open>for val.Kind() == reflect.Ptr { val = val.Elem() }\<close>\<close>

fun followPtrs :: "gtype \<Rightarrow> gval \<Rightarrow> bool \<Rightarrow> rvalue" where
  "followPtrs t (VPtr p v) ro =
     (if kindOf t = PtrK then (if v = VInvalid then invalidValue else followPtrs (elemT t) v ro)
      else (t, VPtr p v, ro))"
| "followPtrs t v ro = (t, v, ro)"

text \<open>\<open>v.Pointer()\<close> for the kinds the visitor is asked about.\<close>

fun pointerOf :: "gval \<Rightarrow> nat" where
  "pointerOf (VSlice p xs) = p"
| "pointerOf (VMap p kvs) = p"
| "pointerOf (VPtr p v) = p"
| "pointerOf (VChan p) = p"
| "pointerOf (VFunc p) = p"
| "pointerOf (VUnsafePointer p) = p"
| "pointerOf v = 0"

section \<open>Script (Lua) values and the state of the interpreter\<close>

text \<open>
  The metatables \<open>makeValueProxy\<close> is given (constants of the proxy subsystem).
\<close>

datatype meta =
    cNumberMeta | cStringMeta | cInterfaceMeta | cComplexMeta
  | cSliceMeta | cMapMeta | cStructMeta | cChannelMeta

text \<open>
  A Lua value. A table is a reference into the interpreter's heap; \<open>ToPointer\<close> of a
  table is that reference. A proxy is the userdata \<open>makeValueProxy\<close> pushes: it holds
  the \<open>reflect.Value\<close> it was given and the metatable. \<open>LGoFunction\<close> is the closure
  that \<open>goLuaFunc\<close> builds around a Go function, \<open>LRawGoFunction\<close> a Go function of
  type \<open>func(*lua.State) int\<close> pushed as it is. \<open>LNone\<close> is what an index beyond the
  top of the stack holds.
\<close>

datatype lval =
    LNone
  | LNil
  | LBoolean bool
  | LNumber real
  | LString string
  | LTable nat
  | LProxy gtype gval bool meta
  | LUserdata nat
  | LGoFunction gtype gval
  | LRawGoFunction gval
  | LFunction nat
  | LLightUserdata nat
  | LThread nat

datatype ltype =
    LUA_TNONE | LUA_TNIL | LUA_TBOOLEAN | LUA_TLIGHTUSERDATA | LUA_TNUMBER
  | LUA_TSTRING | LUA_TTABLE | LUA_TFUNCTION | LUA_TUSERDATA | LUA_TTHREAD

text \<open>\<open>L.Type(idx)\<close> and \<open>L.LTypename(idx)\<close>\<close>

fun luaType :: "lval \<Rightarrow> ltype" where
  "luaType LNone = LUA_TNONE"
| "luaType LNil = LUA_TNIL"
| "luaType (LBoolean b) = LUA_TBOOLEAN"
| "luaType (LNumber r) = LUA_TNUMBER"
| "luaType (LString s) = LUA_TSTRING"
| "luaType (LTable r) = LUA_TTABLE"
| "luaType (LProxy t v ro m) = LUA_TUSERDATA"
| "luaType (LUserdata p) = LUA_TUSERDATA"
| "luaType (LGoFunction t v) = LUA_TFUNCTION"
| "luaType (LRawGoFunction v) = LUA_TFUNCTION"
| "luaType (LFunction p) = LUA_TFUNCTION"
| "luaType (LLightUserdata p) = LUA_TLIGHTUSERDATA"
| "luaType (LThread p) = LUA_TTHREAD"

fun typename :: "ltype \<Rightarrow> string" where
  "typename LUA_TNONE = ''no value''"
| "typename LUA_TNIL = ''nil''"
| "typename LUA_TBOOLEAN = ''boolean''"
| "typename LUA_TLIGHTUSERDATA = ''userdata''"
| "typename LUA_TNUMBER = ''number''"
| "typename LUA_TSTRING = ''string''"
| "typename LUA_TTABLE = ''table''"
| "typename LUA_TFUNCTION = ''function''"
| "typename LUA_TUSERDATA = ''userdata''"
| "typename LUA_TTHREAD = ''thread''"

definition lTypename :: "lval \<Rightarrow> string" where
  "lTypename v = typename (luaType v)"

text \<open>
  A table: its entries in the order \<open>lua_next\<close> visits them. No key and no value of an
  entry is nil. The interpreter's heap is the list of its tables, a reference being an
  index into it; \<open>CreateTable\<close> appends an empty table.
\<close>

type_synonym ltable = "(lval \<times> lval) list"

fun rawget :: "ltable \<Rightarrow> lval \<Rightarrow> lval" where
  "rawget [] k = LNil"
| "rawget ((k', v) # es) k = (if k' = k then v else rawget es k)"

fun tdelete :: "ltable \<Rightarrow> lval \<Rightarrow> ltable" where
  "tdelete [] k = []"
| "tdelete ((k', v) # es) k = (if k' = k then es else (k', v) # tdelete es k)"

fun tupdate :: "ltable \<Rightarrow> lval \<Rightarrow> lval \<Rightarrow> ltable" where
  "tupdate [] k v = [(k, v)]"
| "tupdate ((k', v') # es) k v = (if k' = k then (k, v) # es else (k', v') # tupdate es k v)"

text \<open>\<open>t[k] = v\<close>: storing nil removes the entry.\<close>

definition rawset :: "ltable \<Rightarrow> lval \<Rightarrow> lval \<Rightarrow> ltable" where
  "rawset t k v = (if v = LNil \<or> v = LNone then tdelete t k else tupdate t k v)"

text \<open>\<open>L.RawGeti(idx, i)\<close>\<close>

definition rawgeti :: "ltable \<Rightarrow> nat \<Rightarrow> lval" where
  "rawgeti t i = rawget t (LNumber (real i))"

text \<open>
  How a call ends: it returns, or it panics (a run-time panic of Go or of package
  reflect, or a Lua error raised outside a protected call), or the recursion budget of
  the model ran out, or the model does not cover what happened (\<open>Unmodelled\<close>).
\<close>

datatype 'a outcome = Ret 'a | Panic string | OutOfFuel | Unmodelled string

text \<open>
  What the file uses and does not define: parts of the Lua interpreter, of the proxy
  subsystem and of the host program. They are parameters of the model.
  \<^item> \<open>objlen\<close>: \<open>lua_objlen\<close> on a table (the length operator \<open>#\<close>);
  \<^item> \<open>numfmt\<close>: how \<open>lua_tolstring\<close> prints a number;
  \<^item> \<open>f32\<close>: rounding a double to single precision (Go's \<open>float32(x)\<close>);
  \<^item> \<open>errorOf\<close>: for a value whose type implements \<open>error\<close>, what \<open>Error()\<close> returns;
  \<^item> \<open>tLuaObject\<close>: the type \<open>LuaObject\<close>, declared in another file of the package;
  \<^item> \<open>luaObjectPush\<close>: what \<open>(*LuaObject).Push\<close> pushes;
  \<^item> \<open>newLuaObject\<close>: the \<open>*LuaObject\<close> that \<open>NewLuaObject\<close> returns for a Lua value;
  \<^item> \<open>hostCall\<close>: what calling a Go function value on arguments returns
    (\<open>None\<close>: it panics).
\<close>

record env =
  objlen :: "ltable \<Rightarrow> nat"
  numfmt :: "real \<Rightarrow> string"
  f32 :: "real \<Rightarrow> real"
  errorOf :: "gtype \<Rightarrow> gval \<Rightarrow> string option"
  tLuaObject :: gtype
  luaObjectPush :: "gval \<Rightarrow> lval"
  newLuaObject :: "lval \<Rightarrow> gval"
  hostCall :: "gval \<Rightarrow> gval list \<Rightarrow> (gtype \<times> gval) list option"

section \<open>The package's own types and values\<close>

text \<open>\<open>type NullT int\<close>, \<open>Null = NullT(0)\<close>, \<open>nullv = reflect.ValueOf(Null)\<close>\<close>

definition NullT :: gtype where
  "NullT = Named ''luar.NullT'' (Predeclared IntK)"

definition nullv :: rvalue where
  "nullv = (NullT, VInt 0, False)"

text \<open>\<open>x.Interface() == Null\<close> for a value that can be turned into an interface.\<close>

definition isNull :: "gtype \<Rightarrow> gval \<Rightarrow> bool" where
  "isNull t v = (t = NullT \<and> v = VInt 0)"

text \<open>\<open>tslice\<close> and \<open>tmap\<close>: \<open>[]interface{}\<close> and \<open>map[string]interface{}\<close>\<close>

definition emptyInterface :: gtype where
  "emptyInterface = InterfaceOf []"

definition tslice :: gtype where
  "tslice = SliceOf emptyInterface"

definition tmap :: gtype where
  "tmap = MapOf (Predeclared StringK) emptyInterface"

text \<open>\<open>*lua.State\<close> of golua, and the type \<open>func(*lua.State) int\<close>.\<close>

definition tLuaState :: gtype where
  "tLuaState = Named ''lua.State'' (StructOf [])"

definition tLuaGoFunction :: gtype where
  "tLuaGoFunction = FuncOf [PtrTo tLuaState] False [Predeclared IntK]"

text \<open>
  \<open>isNil\<close> (line 130). The table \<open>nullables\<close> is an array literal whose largest index
  is \<open>reflect.Slice\<close>, so it has 24 entries and the kinds from \<open>String\<close> on are
  answered \<open>false\<close> by the length test.
\<close>

definition nullables :: "kind \<Rightarrow> bool" where
  "nullables k = (k \<in> {ChanK, FuncK, InterfaceK, MapK, PtrK, SliceK})"

definition isNil :: "gtype \<Rightarrow> gval \<Rightarrow> bool" where
  "isNil t v = (let kind = kindOf t in
     if kind_index kind \<ge> 24 then False else nullables kind \<and> valIsNil v)"

text \<open>
  \<open>isNewType\<close> (line 686). The table \<open>types\<close> is an array literal whose largest index
  is \<open>reflect.String\<close>: 25 entries, nil where the literal names no type. A kind beyond
  it indexes out of range, which panics.
\<close>

definition types :: "kind \<Rightarrow> gtype option" where
  "types k = (if k \<in> {BoolK, IntK, Int8K, Int16K, Int32K, Int64K, UintK, Uint8K, Uint16K,
                        Uint32K, Uint64K, UintptrK, Float32K, Float64K, Complex64K,
                        Complex128K, StringK}
              then Some (Predeclared k) else None)"

definition isNewType :: "gtype \<Rightarrow> bool outcome" where
  "isNewType t = (if kind_index (kindOf t) \<ge> 25 then Panic ''index out of range''
                  else Ret (types (kindOf t) \<noteq> Some t))"

section \<open>Host to script: \<open>GoToLua\<close>\<close>

text \<open>
  \<open>float64(x)\<close> for an integer \<open>x\<close>: the nearest double, ties to even. A double has a
  53-bit significand, so the bits of \<open>|x|\<close> beyond the first 53 are rounded away.
\<close>

fun dropBits :: "nat \<Rightarrow> nat" where
  "dropBits a = (if a < 2 ^ 53 then 0 else Suc (dropBits (a div 2)))"

declare dropBits.simps [simp del]

definition float64_of_int :: "int \<Rightarrow> real" where
  "float64_of_int x =
     (let a = nat \<bar>x\<bar>; e = dropBits a; q = a div 2 ^ e; r = a mod 2 ^ e;
          q' = (if 2 * r > 2 ^ e \<or> (2 * r = 2 ^ e \<and> odd q) then q + 1 else q)
      in of_int (sgn x * int (q' * 2 ^ e)))"

text \<open>\<open>v.Float()\<close>, \<open>v.Int()\<close>, \<open>v.Uint()\<close>, \<open>v.String()\<close>, \<open>v.Bool()\<close> on a value of that kind.\<close>

fun floatOf :: "gval \<Rightarrow> real" where
  "floatOf (VFloat r) = r" | "floatOf v = 0"

fun intOf :: "gval \<Rightarrow> int" where
  "intOf (VInt i) = i" | "intOf (VUint i) = i" | "intOf v = 0"

fun stringOf :: "gval \<Rightarrow> string" where
  "stringOf (VString s) = s" | "stringOf v = []"

fun boolOf :: "gval \<Rightarrow> bool" where
  "boolOf (VBool b) = b" | "boolOf v = False"

text \<open>The elements of a slice or an array, the entries of a map, the fields of a struct.\<close>

fun elemsOf :: "gval \<Rightarrow> gval list" where
  "elemsOf (VSlice p xs) = xs"
| "elemsOf (VArray xs) = xs"
| "elemsOf (VStruct xs) = xs"
| "elemsOf v = []"

fun entriesOf :: "gval \<Rightarrow> (gval \<times> gval) list" where
  "entriesOf (VMap p kvs) = kvs"
| "entriesOf v = []"

text \<open>
  The state a conversion to Lua works on: the interpreter's heap of tables, and the
  visitor's table in the registry (\<open>newVisitor\<close>), which maps an address to the Lua
  value recorded for it. The Lua stack is not modelled: a function that pushes a value
  returns it.
\<close>

record gstate =
  heap :: "ltable list"
  reg :: "nat \<Rightarrow> lval option"

text \<open>\<open>visitor.mark\<close> (line 61) and \<open>visitor.push\<close> (line 73)\<close>

definition mark :: "gval \<Rightarrow> lval \<Rightarrow> gstate \<Rightarrow> gstate" where
  "mark val tbl st = st\<lparr>reg := (reg st)(pointerOf val \<mapsto> tbl)\<rparr>"

definition push :: "gval \<Rightarrow> gstate \<Rightarrow> lval option" where
  "push val st = reg st (pointerOf val)"

text \<open>\<open>L.CreateTable\<close> and \<open>L.SetTable(-3)\<close> on the table just created.\<close>

definition createTable :: "gstate \<Rightarrow> nat \<times> gstate" where
  "createTable st = (length (heap st), st\<lparr>heap := heap st @ [[]]\<rparr>)"

definition setTable :: "nat \<Rightarrow> lval \<Rightarrow> lval \<Rightarrow> gstate \<Rightarrow> gstate outcome" where
  "setTable r k v st =
     (if k = LNil \<or> k = LNone then Panic ''table index is nil''
      else if r < length (heap st)
        then Ret (st\<lparr>heap := (heap st)[r := rawset (heap st ! r) k v]\<rparr>)
        else Unmodelled ''dangling table reference'')"

text \<open>
  Line 330: an interface that is not nil is unboxed through \<open>val.Interface()\<close>, which
  panics on a read-only value.
\<close>

definition unbox :: "gtype \<Rightarrow> gval \<Rightarrow> bool \<Rightarrow> rvalue outcome" where
  "unbox t v ro =
     (if kindOf t = InterfaceK \<and> \<not> valIsNil v
      then (if ro then Panic ''reflect: Interface of unexported field'' else Ret (valueOf v))
      else Ret (t, v, ro))"

definition isFloatKind :: "kind \<Rightarrow> bool" where
  "isFloatKind k = (k \<in> {Float64K, Float32K})"

definition isIntKind :: "kind \<Rightarrow> bool" where
  "isIntKind k = (k \<in> {IntK, Int8K, Int16K, Int32K, Int64K})"

definition isUintKind :: "kind \<Rightarrow> bool" where
  "isUintKind k = (k \<in> {UintK, Uint8K, Uint16K, Uint32K, Uint64K})"

definition isComplexKind :: "kind \<Rightarrow> bool" where
  "isComplexKind k = (k \<in> {Complex128K, Complex64K})"

text \<open>\<open>makeValueProxy(L, v, meta)\<close>\<close>

fun makeValueProxy :: "rvalue \<Rightarrow> meta \<Rightarrow> lval" where
  "makeValueProxy (t, v, ro) m = LProxy t v ro m"

text \<open>
  The scalar cases of the switch (lines 352 to 381):
  \<open>if proxify && isNewType(val.Type()) { makeValueProxy(L, ptrVal, meta) } else { push }\<close>
\<close>

definition scalarCase :: "bool \<Rightarrow> gtype \<Rightarrow> rvalue \<Rightarrow> meta \<Rightarrow> lval \<Rightarrow> lval outcome" where
  "scalarCase proxify t ptrVal m plain =
     (if proxify then
        (case isNewType t of
           Ret b \<Rightarrow> Ret (if b then makeValueProxy ptrVal m else plain)
         | Panic e \<Rightarrow> Panic e | OutOfFuel \<Rightarrow> OutOfFuel | Unmodelled e \<Rightarrow> Unmodelled e)
      else Ret plain)"

text \<open>
  \<open>goLuaFunc\<close> up to the closure it returns (lines 227 to 238): a function of type
  \<open>func(*lua.State) int\<close> is returned as it is.
\<close>

definition goLuaFunc :: "gtype \<Rightarrow> gval \<Rightarrow> bool \<Rightarrow> lval outcome" where
  "goLuaFunc t v ro =
     (if ro then Panic ''reflect: Interface of unexported field''
      else if t = tLuaGoFunction then Ret (LRawGoFunction v)
      else Ret (LGoFunction t v))"

text \<open>Sequencing of calls that may not return.\<close>

fun bind :: "'a outcome \<Rightarrow> ('a \<Rightarrow> 'b outcome) \<Rightarrow> 'b outcome" where
  "bind (Ret x) f = f x"
| "bind (Panic e) f = Panic e"
| "bind OutOfFuel f = OutOfFuel"
| "bind (Unmodelled e) f = Unmodelled e"

lemma bind_cong [fundef_cong]:
  "m = m' \<Longrightarrow> (\<And>x. m' = Ret x \<Longrightarrow> f x = f' x) \<Longrightarrow> bind m f = bind m' f'"
  by (cases m') auto

lemma dropBits_small [simp]: "a < 2 ^ 53 \<Longrightarrow> dropBits a = 0"
  by (subst dropBits.simps) simp

lemma dropBits_large: "\<not> a < 2 ^ 53 \<Longrightarrow> dropBits a = Suc (dropBits (a div 2))"
  by (subst dropBits.simps) simp

lemma bind_weak_cong [cong]: "m = m' \<Longrightarrow> bind m f = bind m' f"
  by simp

lemma kindOf_underlying: "kindOf (underlying t) = kindOf t"
  by (induction t) auto

lemma followPtrs_size: "followPtrs t v ro = (t', v', ro') \<Longrightarrow> size v' \<le> size v"
  by (induction t v ro rule: followPtrs.induct) (auto simp: invalidValue_def split: if_splits)

lemma unbox_size: "unbox t v ro = Ret (t', v', ro') \<Longrightarrow> size v' \<le> size v"
  by (cases v) (auto simp: unbox_def invalidValue_def split: if_splits)

text \<open>
  \<open>goToLua\<close> (line 318) with \<open>copyMapToTable\<close> (line 147), \<open>copySliceToTable\<close> (line
  163) and \<open>copyStructToTable\<close> (line 189). The loops of the three copy functions are
  functions of their own. Every function takes the state and returns the new one with
  the Lua value it pushed; the three loops store into the table \<open>r\<close> that their caller
  created. The argument \<open>ro\<close> is the read-only flag of the \<open>reflect.Value\<close>.
\<close>

lemma size_elemsOf: "size_list size (elemsOf v) \<le> size v"
  by (cases v) auto

lemma size_entriesOf: "size_list (size_prod size size) (entriesOf v) \<le> size v"
  by (cases v) auto

function goToLua :: "env \<Rightarrow> gtype \<Rightarrow> gval \<Rightarrow> bool \<Rightarrow> bool \<Rightarrow> gstate \<Rightarrow> (lval \<times> gstate) outcome"
and copyMapToTable :: "env \<Rightarrow> gtype \<Rightarrow> gval \<Rightarrow> bool \<Rightarrow> gstate \<Rightarrow> (lval \<times> gstate) outcome"
and copyMapLoop :: "env \<Rightarrow> gtype \<Rightarrow> gtype \<Rightarrow> bool \<Rightarrow> (gval \<times> gval) list \<Rightarrow> nat \<Rightarrow> gstate \<Rightarrow> gstate outcome"
and copySliceToTable :: "env \<Rightarrow> gtype \<Rightarrow> gval \<Rightarrow> bool \<Rightarrow> gstate \<Rightarrow> (lval \<times> gstate) outcome"
and copySliceLoop :: "env \<Rightarrow> gtype \<Rightarrow> bool \<Rightarrow> nat \<Rightarrow> gval list \<Rightarrow> nat \<Rightarrow> gstate \<Rightarrow> gstate outcome"
and copyStructToTable :: "env \<Rightarrow> gtype \<Rightarrow> gval \<Rightarrow> bool \<Rightarrow> gstate \<Rightarrow> (lval \<times> gstate) outcome"
and copyStructLoop :: "env \<Rightarrow> bool \<Rightarrow> sfield list \<Rightarrow> gval list \<Rightarrow> nat \<Rightarrow> gstate \<Rightarrow> gstate outcome"
where
  "goToLua E t v ro proxify st =
    (if v = VInvalid then Ret (LNil, st) else
     bind (unbox t v ro) (\<lambda>(t0, v0, ro0).
       case followPtrs t0 v0 ro0 of (tv, vv, rov) \<Rightarrow>
        if vv = VInvalid then Ret (LNil, st)
        else if \<not> rov \<and> isNull tv vv then Ret (makeValueProxy (tv, vv, rov) cInterfaceMeta, st)
        else let k = kindOf tv; ptrVal = (t0, v0, ro0) in
         if isFloatKind k then
           bind (scalarCase proxify tv ptrVal cNumberMeta (LNumber (floatOf vv))) (\<lambda>l. Ret (l, st))
         else if isIntKind k then
           bind (scalarCase proxify tv ptrVal cNumberMeta (LNumber (float64_of_int (intOf vv)))) (\<lambda>l. Ret (l, st))
         else if isUintKind k then
           bind (scalarCase proxify tv ptrVal cNumberMeta (LNumber (float64_of_int (intOf vv)))) (\<lambda>l. Ret (l, st))
         else if k = StringK then
           bind (scalarCase proxify tv ptrVal cStringMeta (LString (stringOf vv))) (\<lambda>l. Ret (l, st))
         else if k = BoolK then
           bind (scalarCase proxify tv ptrVal cInterfaceMeta (LBoolean (boolOf vv))) (\<lambda>l. Ret (l, st))
         else if isComplexKind k then Ret (makeValueProxy ptrVal cComplexMeta, st)
         else if k = ArrayK then
           (if proxify \<and> kindOf t0 = PtrK then Ret (makeValueProxy ptrVal cSliceMeta, st)
            else case (if kindOf t0 = PtrK then push v0 st else None) of
                   Some l \<Rightarrow> Ret (l, st)
                 | None \<Rightarrow> copySliceToTable E t0 v0 ro0 st)
         else if k = SliceK then
           (if proxify then Ret (makeValueProxy ptrVal cSliceMeta, st)
            else case push vv st of
                   Some l \<Rightarrow> Ret (l, st)
                 | None \<Rightarrow> copySliceToTable E tv vv rov st)
         else if k = MapK then
           (if proxify then Ret (makeValueProxy ptrVal cMapMeta, st)
            else case push vv st of
                   Some l \<Rightarrow> Ret (l, st)
                 | None \<Rightarrow> copyMapToTable E tv vv rov st)
         else if k = StructK then
           (if proxify \<and> kindOf t0 = PtrK then
              (if \<not> ro0 then
                 (case errorOf E t0 v0 of
                    Some msg \<Rightarrow> Ret (LString msg, st)
                  | None \<Rightarrow>
                      if t0 = PtrTo (tLuaObject E) then Ret (luaObjectPush E v0, st)
                      else Ret (makeValueProxy ptrVal cStructMeta, st))
               else Ret (makeValueProxy ptrVal cStructMeta, st))
            else case (if kindOf t0 = PtrK then push v0 st else None) of
                   Some l \<Rightarrow> Ret (l, st)
                 | None \<Rightarrow> copyStructToTable E t0 v0 ro0 st)
         else if k = ChanK then Ret (makeValueProxy ptrVal cChannelMeta, st)
         else if k = FuncK then bind (goLuaFunc tv vv rov) (\<lambda>l. Ret (l, st))
         else
           (if rov then Panic ''reflect: Interface of unexported field''
            else case (if vv = VIfaceNil then None else errorOf E tv vv) of
                   Some msg \<Rightarrow> Ret (LString msg, st)
                 | None \<Rightarrow>
                     if \<not> nillableKind k then Panic ''reflect: call of reflect.Value.IsNil''
                     else if valIsNil vv then Ret (LNil, st)
                     else Ret (makeValueProxy ptrVal cInterfaceMeta, st))))"
| "copyMapToTable E t v ro st =
    (case createTable st of (r, st1) \<Rightarrow>
       bind (copyMapLoop E (keyT t) (elemT t) ro (entriesOf v) r (mark v (LTable r) st1))
         (\<lambda>st2. Ret (LTable r, st2)))"
| "copyMapLoop E tk te ro [] r st = Ret st"
| "copyMapLoop E tk te ro (kv # kvs) r st =
    bind (goToLua E tk (fst kv) ro True st) (\<lambda>(lk, st1).
    bind (if isNil te (snd kv) then goToLua E NullT (VInt 0) False False st1
          else goToLua E te (snd kv) ro False st1) (\<lambda>(lv, st2).
    bind (setTable r lk lv st2) (\<lambda>st3.
    copyMapLoop E tk te ro kvs r st3)))"
| "copySliceToTable E t v ro st =
    (case followPtrs t v ro of (ts, vs, ros) \<Rightarrow>
     case createTable st of (r, st1) \<Rightarrow>
       bind (copySliceLoop E (elemT ts) ros 0 (elemsOf vs) r
               (if kindOf ts = SliceK then mark vs (LTable r) st1
                else if kindOf t = PtrK then mark v (LTable r) st1
                else st1))
         (\<lambda>st2. Ret (LTable r, st2)))"
| "copySliceLoop E te ro i [] r st = Ret st"
| "copySliceLoop E te ro i (x # xs) r st =
    bind (if isNil te x then goToLua E NullT (VInt 0) False False st
          else goToLua E te x ro False st) (\<lambda>(lv, st1).
    bind (setTable r (LNumber (real (i + 1))) lv st1) (\<lambda>st2.
    copySliceLoop E te ro (i + 1) xs r st2))"
| "copyStructToTable E t v ro st =
    (case followPtrs t v ro of (ts, vs, ros) \<Rightarrow>
     case createTable st of (r, st1) \<Rightarrow>
       bind (copyStructLoop E ros (fieldsT ts) (elemsOf vs) r
               (if kindOf t = PtrK then mark v (LTable r) st1 else st1))
         (\<lambda>st2. Ret (LTable r, st2)))"
| "copyStructLoop E ro [] xs r st = Ret st"
| "copyStructLoop E ro (f # fs) [] r st = Panic ''reflect: Field index out of range''"
| "copyStructLoop E ro (f # fs) (x # xs) r st =
    (let key = (if ftag f \<noteq> [] then ftag f else fname f) in
     bind (goToLua E (Predeclared StringK) (VString key) False False st) (\<lambda>(lk, st1).
     bind (goToLua E (ftype f) x (ro \<or> \<not> fexported f) False st1) (\<lambda>(lv, st2).
     bind (setTable r lk lv st2) (\<lambda>st3.
     copyStructLoop E ro fs xs r st3))))"
  by pat_completeness auto
termination
proof (relation "measure (case_sum
      (case_sum (\<lambda>(E, t, v, ro, p, st). 3 * size v + 2)
        (case_sum (\<lambda>(E, t, v, ro, st). 3 * size v + 1)
                  (\<lambda>(E, tk, te, ro, kvs, r, st). 3 * size_list (size_prod size size) kvs)))
      (case_sum
        (case_sum (\<lambda>(E, t, v, ro, st). 3 * size v + 1)
                  (\<lambda>(E, te, ro, i, xs, r, st). 3 * size_list size xs))
        (case_sum (\<lambda>(E, t, v, ro, st). 3 * size v + 1)
                  (\<lambda>(E, ro, fs, xs, r, st). 3 * size_list size xs))))", goal_cases)
  case 1 show ?case by simp
next
  case (2 E t v ro proxify st x xa y xb ya xc yb xd yc xe xf)
  then show ?case using unbox_size[of t v ro xa xb ya] by auto
next
  case (3 E t v ro proxify st x xa y xb ya xc yb xd yc xe xf)
  then show ?case
    using unbox_size[of t v ro xa xb ya] followPtrs_size[of xa xb ya xc xd yc] by auto
next
  case (4 E t v ro proxify st x xa y xb ya xc yb xd yc xe xf)
  then show ?case
    using unbox_size[of t v ro xa xb ya] followPtrs_size[of xa xb ya xc xd yc] by auto
next
  case (5 E t v ro proxify st x xa y xb ya xc yb xd yc xe xf)
  then show ?case using unbox_size[of t v ro xa xb ya] by auto
next
  case (6 E t v ro st x y)
  then show ?case using size_entriesOf[of v] by simp
next
  case (7 E tk te ro kv kvs r st) then show ?case by (cases kv) simp
next
  case 8 then show ?case by simp
next
  case (9 E tk te ro kv kvs r st) then show ?case by (cases kv) simp
next
  case 10 then show ?case by simp
next
  case (11 E t v ro st x y xa ya xb yb)
  then show ?case
    using followPtrs_size[of t v ro x xa ya] size_elemsOf[of xa] by auto
next
  case 12 then show ?case by simp
next
  case 13 then show ?case by simp
next
  case 14 then show ?case by simp
next
  case (15 E t v ro st x y xa ya xb yb)
  then show ?case
    using followPtrs_size[of t v ro x xa ya] size_elemsOf[of xa] by auto
next
  case 16 then show ?case by simp
next
  case 17 then show ?case by simp
next
  case 18 then show ?case by simp
qed

declare goToLua.simps [simp del] copyMapToTable.simps [simp del]
  copySliceToTable.simps [simp del] copyStructToTable.simps [simp del]

text \<open>\<open>GoToLua\<close> (line 294) and \<open>GoToLuaProxy\<close> (line 310): a fresh visitor for each call.\<close>

definition newVisitor :: "ltable list \<Rightarrow> gstate" where
  "newVisitor h = \<lparr>heap = h, reg = Map.empty\<rparr>"



section \<open>Script to host: \<open>LuaToGo\<close>\<close>

text \<open>\<open>reflect.Zero(t)\<close>, which is also what \<open>reflect.New(t).Elem()\<close> holds.\<close>

fun zero :: "gtype \<Rightarrow> gval"
and zeroFields :: "sfield list \<Rightarrow> gval list"
and zeroField :: "sfield \<Rightarrow> gval" where
  "zero (Predeclared k) =
     (if k = BoolK then VBool False
      else if isIntKind k then VInt 0
      else if isUintKind k \<or> k = UintptrK then VUint 0
      else if isFloatKind k then VFloat 0
      else if isComplexKind k then VComplex 0 0
      else if k = StringK then VString []
      else if k = UnsafePointerK then VUnsafePointer 0
      else VInvalid)"
| "zero (Named n u) = zero u"
| "zero (SliceOf t) = VSlice 0 []"
| "zero (ArrayOf n t) = VArray (replicate n (zero t))"
| "zero (MapOf k t) = VMap 0 []"
| "zero (PtrTo t) = VPtr 0 VInvalid"
| "zero (StructOf fs) = VStruct (zeroFields fs)"
| "zero (InterfaceOf ms) = VIfaceNil"
| "zero (ChanOf t) = VChan 0"
| "zero (FuncOf ins va outs) = VFunc 0"
| "zeroFields [] = []"
| "zeroFields (f # fs) = zeroField f # zeroFields fs"
| "zeroField (Field n tg ex t) = zero t"

text \<open>
  Assignability, as \<open>Value.Set\<close> checks it: identical types; or an interface type that
  the value's type implements; or identical underlying types when one of the two types
  has no name. The method sets of types are not modelled: the empty interface is
  implemented by every type, an interface with methods by no predeclared type, and the
  other cases are left open.
\<close>

fun hasName :: "gtype \<Rightarrow> bool" where
  "hasName (Predeclared k) = True"
| "hasName (Named n u) = True"
| "hasName t = False"

fun isPredeclared :: "gtype \<Rightarrow> bool" where
  "isPredeclared (Predeclared k) = True"
| "isPredeclared t = False"

fun methodsOf :: "gtype \<Rightarrow> string list" where
  "methodsOf (Named n u) = methodsOf u"
| "methodsOf (InterfaceOf ms) = ms"
| "methodsOf t = []"

text \<open>
  \<open>value.Set(x)\<close> for a destination of type \<open>t\<close> and an \<open>x\<close> of type \<open>ts\<close> and value
  \<open>vs\<close>: what the destination holds afterwards. The destination is the zero \<open>Value\<close>
  when its kind is \<open>Invalid\<close>.
\<close>

definition setValue :: "gtype \<Rightarrow> gtype \<Rightarrow> gval \<Rightarrow> gval outcome" where
  "setValue t ts vs =
     (if kindOf t = InvalidK then Panic ''reflect: call of reflect.Value.Set on zero Value''
      else if ts = t then Ret vs
      else if kindOf t = InterfaceK then
        (if methodsOf t = [] then Ret (VIface ts vs)
         else if isPredeclared ts then Panic ''reflect.Set: value is not assignable''
         else Unmodelled ''method sets'')
      else if \<not> (hasName ts \<and> hasName t) \<and> underlying ts = underlying t then Ret vs
      else Panic ''reflect.Set: value is not assignable'')"


text \<open>
  \<open>value.Set(reflect.Zero(value.Type()))\<close> (lines 604 and 633): \<open>Type\<close> panics on the
  zero \<open>Value\<close> before \<open>Set\<close> is reached.
\<close>

definition setZero :: "gtype \<Rightarrow> gval outcome" where
  "setZero t =
     (if kindOf t = InvalidK then Panic ''reflect: call of reflect.Value.Type on zero Value''
      else setValue t t (zero t))"

text \<open>
  Conversions between numbers, as \<open>Value.Convert\<close> performs them. A double converted
  to an integer type is truncZerod towards zero and then cut to the width of the type;
  outside the range of \<open>int64\<close> (of \<open>uint64\<close> for the unsigned types) Go leaves the
  result to the implementation, and the model leaves it open. \<open>int\<close>, \<open>uint\<close> and
  \<open>uintptr\<close> are 64 bits wide.
\<close>

fun bitsOf :: "kind \<Rightarrow> nat" where
  "bitsOf Int8K = 8" | "bitsOf Int16K = 16" | "bitsOf Int32K = 32"
| "bitsOf Uint8K = 8" | "bitsOf Uint16K = 16" | "bitsOf Uint32K = 32"
| "bitsOf k = 64"

definition truncZero :: "real \<Rightarrow> int" where
  "truncZero r = (if r \<ge> 0 then \<lfloor>r\<rfloor> else \<lceil>r\<rceil>)"

definition wrapInt :: "nat \<Rightarrow> int \<Rightarrow> int" where
  "wrapInt b i = (i + 2 ^ (b - 1)) mod 2 ^ b - 2 ^ (b - 1)"

definition wrapUint :: "nat \<Rightarrow> int \<Rightarrow> int" where
  "wrapUint b i = i mod 2 ^ b"

definition cvtFloat :: "env \<Rightarrow> real \<Rightarrow> kind \<Rightarrow> gval outcome" where
  "cvtFloat E r k =
     (if isIntKind k then
        (if - (2 ^ 63) \<le> truncZero r \<and> truncZero r < 2 ^ 63
         then Ret (VInt (wrapInt (bitsOf k) (truncZero r)))
         else Unmodelled ''float64 outside the range of int64'')
      else if isUintKind k \<or> k = UintptrK then
        (if 0 \<le> truncZero r \<and> truncZero r < 2 ^ 64
         then Ret (VUint (wrapUint (bitsOf k) (truncZero r)))
         else Unmodelled ''float64 outside the range of uint64'')
      else if k = Float32K then Ret (VFloat (f32 E r))
      else if k = Float64K then Ret (VFloat r)
      else Panic ''reflect.Value.Convert: not convertible'')"

definition cvtInt :: "env \<Rightarrow> int \<Rightarrow> kind \<Rightarrow> gval outcome" where
  "cvtInt E i k =
     (if isIntKind k then Ret (VInt (wrapInt (bitsOf k) i))
      else if isUintKind k \<or> k = UintptrK then Ret (VUint (wrapUint (bitsOf k) i))
      else if k = Float32K then Ret (VFloat (f32 E (float64_of_int i)))
      else if k = Float64K then Ret (VFloat (float64_of_int i))
      else Panic ''reflect.Value.Convert: not convertible'')"

definition isNumericKind :: "kind \<Rightarrow> bool" where
  "isNumericKind k = (isIntKind k \<or> isUintKind k \<or> k = UintptrK \<or> isFloatKind k)"

text \<open>Types up to the tags of struct fields, which conversions ignore.\<close>

fun eraseTags :: "gtype \<Rightarrow> gtype"
and eraseTagsFields :: "sfield list \<Rightarrow> sfield list"
and eraseTagsField :: "sfield \<Rightarrow> sfield"
and eraseTagsList :: "gtype list \<Rightarrow> gtype list" where
  "eraseTags (Predeclared k) = Predeclared k"
| "eraseTags (Named n u) = Named n (eraseTags u)"
| "eraseTags (SliceOf t) = SliceOf (eraseTags t)"
| "eraseTags (ArrayOf n t) = ArrayOf n (eraseTags t)"
| "eraseTags (MapOf k t) = MapOf (eraseTags k) (eraseTags t)"
| "eraseTags (PtrTo t) = PtrTo (eraseTags t)"
| "eraseTags (StructOf fs) = StructOf (eraseTagsFields fs)"
| "eraseTags (InterfaceOf ms) = InterfaceOf ms"
| "eraseTags (ChanOf t) = ChanOf (eraseTags t)"
| "eraseTags (FuncOf ins va outs) = FuncOf (eraseTagsList ins) va (eraseTagsList outs)"
| "eraseTagsFields [] = []"
| "eraseTagsFields (f # fs) = eraseTagsField f # eraseTagsFields fs"
| "eraseTagsField (Field n tg ex t) = Field n [] ex (eraseTags t)"
| "eraseTagsList [] = []"
| "eraseTagsList (t # ts) = eraseTags t # eraseTagsList ts"

text \<open>
  \<open>t.ConvertibleTo(u)\<close> and \<open>v.Convert(u)\<close> together: \<open>Ret None\<close> when the type is not
  convertible, \<open>Ret (Some x)\<close> with the converted value when it is. Go's rules that
  involve the bytes and runes of strings, arrays made from slices, or the method set of
  a type are left open.
\<close>

definition convertValue :: "env \<Rightarrow> gtype \<Rightarrow> gval \<Rightarrow> gtype \<Rightarrow> gval option outcome" where
  "convertValue E ts vs t =
     (let ks = kindOf ts; k = kindOf t in
      if (isIntKind ks \<or> isUintKind ks \<or> ks = UintptrK) \<and> isNumericKind k
        then bind (cvtInt E (intOf vs) k) (\<lambda>x. Ret (Some x))
      else if isFloatKind ks \<and> isNumericKind k
        then bind (cvtFloat E (floatOf vs) k) (\<lambda>x. Ret (Some x))
      else if isComplexKind ks \<and> isComplexKind k
        then (case vs of
                VComplex a b \<Rightarrow>
                  Ret (Some (if k = Complex64K then VComplex (f32 E a) (f32 E b) else VComplex a b))
              | _ \<Rightarrow> Unmodelled ''ill-typed value'')
      else if (isIntKind ks \<or> isUintKind ks \<or> ks = UintptrK) \<and> k = StringK
        then Unmodelled ''conversion of an integer to a string''
      else if ks = StringK \<and> k = SliceK \<and> kindOf (elemT t) \<in> {Uint8K, Int32K}
        then Unmodelled ''conversion of a string to bytes or runes''
      else if ks = SliceK \<and> k = StringK \<and> kindOf (elemT ts) \<in> {Uint8K, Int32K}
        then Unmodelled ''conversion of bytes or runes to a string''
      else if ks = SliceK \<and> (k = ArrayK \<or> (k = PtrK \<and> kindOf (elemT t) = ArrayK))
        then Unmodelled ''conversion of a slice to an array''
      else if eraseTags (underlying ts) = eraseTags (underlying t) then Ret (Some vs)
      else if k = PtrK \<and> ks = PtrK \<and> \<not> hasName t \<and> \<not> hasName ts
              \<and> eraseTags (underlying (elemT ts)) = eraseTags (underlying (elemT t))
        then Ret (Some vs)
      else if k = InterfaceK then
        (if methodsOf t = [] then Ret (Some (if ks = InterfaceK then vs else VIface ts vs))
         else if isPredeclared ts then Ret None
         else Unmodelled ''method sets'')
      else Ret None)"

text \<open>
  Modelled from the spec: \<open>unsizedKind\<close> is called at line 616 and defined in another
  file of the package. The spec (4.3, Number) has an integer, unsigned or floating
  destination converted, a fully dynamic one given the double, a complex one the number
  with a zero imaginary part, and every other destination refused; so the kinds of each
  family are mapped to the widest of the family and every other kind to itself.
\<close>

definition unsizedKind :: "gtype \<Rightarrow> kind" where
  "unsizedKind t =
     (let k = kindOf t in
      if isIntKind k then Int64K
      else if isUintKind k then Uint64K
      else if isFloatKind k then Float64K
      else if isComplexKind k then Complex128K
      else k)"

text \<open>
  Modelled from the spec: \<open>isValueProxy\<close> and \<open>valueOfProxy\<close> (lines 629 and 630) belong to
  the proxy subsystem, another file of the package. By the spec (6) \<open>isProxy\<close> recognises
  the handles \<open>makeProxy\<close> created and \<open>unwrapProxy\<close> returns the wrapped value and its
  type.
\<close>

fun isValueProxy :: "lval \<Rightarrow> bool" where
  "isValueProxy (LProxy t v ro m) = True"
| "isValueProxy l = False"

fun valueOfProxy :: "lval \<Rightarrow> rvalue" where
  "valueOfProxy (LProxy t v ro m) = (t, v, ro)"
| "valueOfProxy l = invalidValue"

text \<open>
  The error values of \<open>LuaToGo\<close>: \<open>errors.New("not a pointer")\<close>, and \<open>LuaToGoError\<close>
  with the name of the Lua type and the destination. \<open>ProxyToGoError ts t\<close> is the
  \<open>LuaToGoError\<close> of line 637, whose \<open>Lua\<close> field is the string of the proxy's type \<open>ts\<close>.
\<close>

datatype goError = NotAPointer | LuaToGoError string gtype | ProxyToGoError gtype gtype

text \<open>
  The map \<open>visited\<close> of \<open>luaToGo\<close>: from the identity of a Lua table to the Go value made
  for it. The code stores the value before it fills it (a slice header, a map, a pointer
  to a struct), so a later lookup sees what has been filled in by then. The model keeps
  \<open>InProgress\<close> while the table is being converted and the finished value afterwards; a
  lookup that finds \<open>InProgress\<close> comes from a cyclic table, whose image is a cyclic Go
  value and therefore outside the model. \<open>nextAddr\<close> is the next address that
  \<open>reflect.MakeSlice\<close>, \<open>reflect.MakeMap\<close> or \<open>reflect.New\<close> hands out.
\<close>

datatype ventry = InProgress | Done gtype gval

record cstate =
  visited :: "nat \<Rightarrow> ventry option"
  nextAddr :: nat

definition alloc :: "cstate \<Rightarrow> nat \<times> cstate" where
  "alloc st = (nextAddr st, st\<lparr>nextAddr := Suc (nextAddr st)\<rparr>)"

definition record_visit :: "nat \<Rightarrow> ventry \<Rightarrow> cstate \<Rightarrow> cstate" where
  "record_visit ptr e st = st\<lparr>visited := (visited st)(ptr \<mapsto> e)\<rparr>"

text \<open>\<open>luaIsEmpty\<close> (line 449)\<close>

definition luaIsEmpty :: "ltable \<Rightarrow> bool" where
  "luaIsEmpty t = (t = [])"

text \<open>
  \<open>val.Interface() == Null\<close> for the element just converted (lines 485 and 528): the
  element is \<open>Null\<close> itself, or an interface that holds it.
\<close>

definition holdsNull :: "gtype \<Rightarrow> gval \<Rightarrow> bool" where
  "holdsNull t v = (isNull t v \<or> (kindOf t = InterfaceK \<and> v = VIface NullT (VInt 0)))"

text \<open>
  \<open>m.SetMapIndex(key, val)\<close>: the entry of an equal key is replaced. A key that holds a
  slice, a map or a function cannot be hashed, and the call panics.
\<close>

fun hashable :: "gval \<Rightarrow> bool"
and hashableList :: "gval list \<Rightarrow> bool" where
  "hashable (VSlice p xs) = False"
| "hashable (VMap p kvs) = False"
| "hashable (VFunc p) = False"
| "hashable (VIface t v) = hashable v"
| "hashable (VArray xs) = hashableList xs"
| "hashable (VStruct xs) = hashableList xs"
| "hashable v = True"
| "hashableList [] = True"
| "hashableList (x # xs) = (hashable x \<and> hashableList xs)"

fun mapUpdate :: "(gval \<times> gval) list \<Rightarrow> gval \<Rightarrow> gval \<Rightarrow> (gval \<times> gval) list" where
  "mapUpdate [] k v = [(k, v)]"
| "mapUpdate ((k', v') # es) k v = (if k' = k then (k', v) # es else (k', v') # mapUpdate es k v)"

text \<open>
  The field mapping of \<open>copyTableToStruct\<close> (lines 553 to 563): the tag, when there is
  one, replaces the name as the key.
\<close>

fun fieldMapping :: "sfield list \<Rightarrow> (string \<Rightarrow> string option) \<Rightarrow> (string \<Rightarrow> string option)" where
  "fieldMapping [] fm = fm"
| "fieldMapping (f # fs) fm =
     (if ftag f \<noteq> [] then fieldMapping fs (fm(ftag f \<mapsto> fname f))
      else fieldMapping fs (fm(fname f \<mapsto> fname f)))"

text \<open>\<open>fields[key]\<close>: the empty string for a key that is not in the map.\<close>

definition fieldsLookup :: "(string \<Rightarrow> string option) \<Rightarrow> string \<Rightarrow> string" where
  "fieldsLookup fm key = (case fm key of None \<Rightarrow> [] | Some n \<Rightarrow> n)"

text \<open>\<open>ref.FieldByName(name)\<close>: the index of the field, if there is one of that name.\<close>

fun fieldByName :: "sfield list \<Rightarrow> string \<Rightarrow> nat option" where
  "fieldByName [] name = None"
| "fieldByName (f # fs) name =
     (if fname f = name then Some 0 else map_option Suc (fieldByName fs name))"

text \<open>
  \<open>L.ToString(-2)\<close> on a key: a string as it is, a number printed, and the empty string
  for every other value.
\<close>

fun toString :: "env \<Rightarrow> lval \<Rightarrow> string" where
  "toString E (LString s) = s"
| "toString E (LNumber r) = numfmt E r"
| "toString E l = []"


text \<open>\<open>L.ToBoolean\<close>, \<open>L.ToNumber\<close> and \<open>L.ToString\<close> on a value of that type.\<close>

fun toBoolean :: "lval \<Rightarrow> bool" where
  "toBoolean (LBoolean b) = b"
| "toBoolean LNil = False"
| "toBoolean LNone = False"
| "toBoolean l = True"

fun toNumber :: "lval \<Rightarrow> real" where
  "toNumber (LNumber r) = r"
| "toNumber l = 0"

fun luaString :: "lval \<Rightarrow> string" where
  "luaString (LString s) = s"
| "luaString l = []"

text \<open>
  \<open>luaToGo\<close> (line 599) with \<open>copyTableToMap\<close> (line 461), \<open>copyTableToSlice\<close> (line 498)
  and \<open>copyTableToStruct\<close> (line 539), their loops being functions of their own. The
  destination \<open>value\<close> is its type \<open>t\<close> and what it holds, \<open>cur\<close>; a call returns the
  error (or none), what the destination holds afterwards, and the new state. The first
  argument bounds the depth of the recursion, which follows the tables of the heap
  \<open>h\<close>: a table that contains itself would otherwise have no image.

  In \<open>copyTableToStruct\<close> the key of an entry is read with \<open>L.ToString(-2)\<close>, which turns
  a number on the stack into a string; the next \<open>L.Next\<close> then looks that string up in
  the table. It raises the Lua error "invalid key to 'next'" when the table has no such
  key, and otherwise goes on from that key's entry, which the model leaves open.
\<close>

function luaToGo :: "nat \<Rightarrow> env \<Rightarrow> ltable list \<Rightarrow> lval \<Rightarrow> gtype \<Rightarrow> gval \<Rightarrow> cstate
    \<Rightarrow> (goError option \<times> gval \<times> cstate) outcome"
and copyTableToMap :: "nat \<Rightarrow> env \<Rightarrow> ltable list \<Rightarrow> nat \<Rightarrow> gtype \<Rightarrow> gval \<Rightarrow> cstate
    \<Rightarrow> (goError option \<times> gval \<times> cstate) outcome"
and copyTableToMapLoop :: "nat \<Rightarrow> env \<Rightarrow> ltable list \<Rightarrow> gtype \<Rightarrow> gtype \<Rightarrow> ltable
    \<Rightarrow> (gval \<times> gval) list \<Rightarrow> cstate \<Rightarrow> ((gval \<times> gval) list \<times> cstate) outcome"
and copyTableToSlice :: "nat \<Rightarrow> env \<Rightarrow> ltable list \<Rightarrow> nat \<Rightarrow> gtype \<Rightarrow> gval \<Rightarrow> cstate
    \<Rightarrow> (goError option \<times> gval \<times> cstate) outcome"
and copyTableToSliceLoop :: "nat \<Rightarrow> env \<Rightarrow> ltable list \<Rightarrow> ltable \<Rightarrow> gtype \<Rightarrow> nat \<Rightarrow> nat
    \<Rightarrow> gval list \<Rightarrow> cstate \<Rightarrow> (gval list \<times> cstate) outcome"
and copyTableToStruct :: "nat \<Rightarrow> env \<Rightarrow> ltable list \<Rightarrow> nat \<Rightarrow> gtype \<Rightarrow> gval \<Rightarrow> cstate
    \<Rightarrow> (goError option \<times> gval \<times> cstate) outcome"
and copyTableToStructLoop :: "nat \<Rightarrow> env \<Rightarrow> ltable list \<Rightarrow> ltable \<Rightarrow> (string \<Rightarrow> string option)
    \<Rightarrow> sfield list \<Rightarrow> ltable \<Rightarrow> gval list \<Rightarrow> cstate \<Rightarrow> (gval list \<times> cstate) outcome"
where
  "luaToGo 0 E h l t cur st = OutOfFuel"
| "luaToGo (Suc F) E h l t cur st =
    (let kind = kindOf t in
     case luaType l of
       LUA_TNIL \<Rightarrow> bind (setZero t) (\<lambda>x. Ret (None, x, st))
     | LUA_TBOOLEAN \<Rightarrow>
         if kind \<noteq> BoolK \<and> kind \<noteq> InterfaceK then Ret (Some (LuaToGoError (lTypename l) t), cur, st)
         else bind (setValue t (Predeclared BoolK) (VBool (toBoolean l))) (\<lambda>x. Ret (None, x, st))
     | LUA_TSTRING \<Rightarrow>
         if kind \<noteq> StringK \<and> kind \<noteq> InterfaceK then Ret (Some (LuaToGoError (lTypename l) t), cur, st)
         else bind (setValue t (Predeclared StringK) (VString (luaString l))) (\<lambda>x. Ret (None, x, st))
     | LUA_TNUMBER \<Rightarrow>
         (let k = unsizedKind t in
          if k = Int64K \<or> k = Uint64K \<or> k = Float64K then
            bind (cvtFloat E (toNumber l) kind) (\<lambda>f.
            bind (setValue t t f) (\<lambda>x. Ret (None, x, st)))
          else if k = InterfaceK then
            bind (setValue t (Predeclared Float64K) (VFloat (toNumber l))) (\<lambda>x. Ret (None, x, st))
          else if k = Complex128K then
            Ret (None, VComplex (if kind = Complex64K then f32 E (toNumber l) else toNumber l) 0, st)
          else Ret (Some (LuaToGoError (lTypename l) t), cur, st))
     | LUA_TUSERDATA \<Rightarrow>
         if isValueProxy l then
           (case valueOfProxy l of (tp, vp, rop) \<Rightarrow>
              if rop then Panic ''reflect: Interface of unexported field''
              else if isNull tp vp then bind (setZero t) (\<lambda>x. Ret (None, x, st))
              else if kind = InvalidK then Panic ''reflect: call of reflect.Value.Type on zero Value''
              else bind (convertValue E tp vp t) (\<lambda>c.
                     case c of
                       None \<Rightarrow> Ret (Some (ProxyToGoError tp t), cur, st)
                     | Some x \<Rightarrow> bind (setValue t t x) (\<lambda>y. Ret (None, y, st))))
         else if kind \<noteq> InterfaceK \<or> t \<noteq> tLuaObject E
           then Ret (Some (LuaToGoError (lTypename l) t), cur, st)
         else bind (setValue t (PtrTo (tLuaObject E)) (newLuaObject E l)) (\<lambda>x. Ret (None, x, st))
     | LUA_TTABLE \<Rightarrow>
         (case l of
            LTable ptr \<Rightarrow>
              (case visited st ptr of
                 Some InProgress \<Rightarrow> Unmodelled ''cyclic table''
               | Some (Done tv vv) \<Rightarrow> bind (setValue t tv vv) (\<lambda>x. Ret (None, x, st))
               | None \<Rightarrow>
                   if ptr \<ge> length h then Unmodelled ''dangling table reference''
                   else if kind = ArrayK \<or> kind = SliceK then copyTableToSlice F E h ptr t cur st
                   else if kind = MapK then copyTableToMap F E h ptr t cur st
                   else if kind = StructK then copyTableToStruct F E h ptr t cur st
                   else if kind = InterfaceK then
                     (if objlen E (h ! ptr) > 0 then copyTableToSlice F E h ptr t cur st
                      else copyTableToMap F E h ptr t cur st)
                   else Ret (Some (LuaToGoError (lTypename l) t), cur, st))
          | _ \<Rightarrow> Unmodelled ''ill-typed value'')
     | _ \<Rightarrow> Ret (Some (LuaToGoError (lTypename l) t), cur, st))"
| "copyTableToMap F E h ptr t cur st =
    (let t' = (if kindOf t = InterfaceK then tmap else t);
         te = elemT t'; tk = keyT t'; tbl = h ! ptr in
     case alloc st of (p, st1) \<Rightarrow>
       bind (copyTableToMapLoop F E h tk te tbl []
               (if \<not> luaIsEmpty tbl then record_visit ptr InProgress st1 else st1))
         (\<lambda>(m, st2).
            bind (setValue t t' (VMap p m)) (\<lambda>x.
            Ret (None, x, if \<not> luaIsEmpty tbl then record_visit ptr (Done t' (VMap p m)) st2
                          else st2))))"
| "copyTableToMapLoop F E h tk te [] m st = Ret (m, st)"
| "copyTableToMapLoop F E h tk te (e # es) m st =
    bind (luaToGo F E h (fst e) tk (zero tk) st) (\<lambda>(err1, key, st1).
    bind (luaToGo F E h (snd e) te (zero te) st1) (\<lambda>(err2, val, st2).
      if \<not> hashable key then Panic ''runtime error: hash of unhashable type''
      else copyTableToMapLoop F E h tk te es
             (mapUpdate m key (if holdsNull te val then zero te else val)) st2))"
| "copyTableToSlice F E h ptr t cur st =
    (let t' = (if kindOf t = InterfaceK then tslice else t);
         tbl = h ! ptr; n = objlen E tbl; te = elemT t'; isArray = (kindOf t' = ArrayK) in
     case (if isArray then (0, st) else alloc st) of (p, st1) \<Rightarrow>
       bind (copyTableToSliceLoop F E h tbl te 1 n
               (replicate (if isArray then arrayLen t' else n) (zero te))
               (if n > 0 \<and> \<not> isArray then record_visit ptr InProgress st1 else st1))
         (\<lambda>(elems, st2).
            let slice = (if isArray then VArray elems else VSlice p elems) in
            bind (setValue t t' slice) (\<lambda>x.
            Ret (None, x, if n > 0 \<and> \<not> isArray then record_visit ptr (Done t' slice) st2
                          else st2))))"
| "copyTableToSliceLoop F E h tbl te i n elems st =
    (if i > n then Ret (elems, st)
     else bind (luaToGo F E h (rawgeti tbl i) te (zero te) st) (\<lambda>(err, val, st1).
       if i - 1 < length elems
       then copyTableToSliceLoop F E h tbl te (i + 1) n
              (elems[i - 1 := (if holdsNull te val then zero te else val)]) st1
       else Panic ''reflect: array index out of range''))"
| "copyTableToStruct F E h ptr t cur st =
    (let tbl = h ! ptr; fs = fieldsT t in
     case (if \<not> luaIsEmpty tbl
           then (case alloc st of (a, st1) \<Rightarrow> (a, record_visit ptr InProgress st1))
           else (0, st)) of (a, st1) \<Rightarrow>
       bind (copyTableToStructLoop F E h tbl (fieldMapping fs Map.empty) fs tbl (zeroFields fs) st1)
         (\<lambda>(ref, st2).
            bind (setValue t t (VStruct ref)) (\<lambda>x.
            Ret (None, x, if \<not> luaIsEmpty tbl
                          then record_visit ptr (Done (PtrTo t) (VPtr a (VStruct ref))) st2
                          else st2))))"
| "copyTableToStructLoop F E h tbl fm fs [] ref st = Ret (ref, st)"
| "copyTableToStructLoop F E h tbl fm fs (e # es) ref st =
    (let key = toString E (fst e) in
     bind (case fieldByName fs (fieldsLookup fm key) of
             Some j \<Rightarrow>
               if fexported (fs ! j) then
                 bind (luaToGo F E h (snd e) (ftype (fs ! j)) (zero (ftype (fs ! j))) st)
                   (\<lambda>(err, val, st1). Ret (ref[j := val], st1))
               else Ret (ref, st)
           | None \<Rightarrow> Ret (ref, st))
       (\<lambda>(ref1, st1).
          if luaType (fst e) = LUA_TNUMBER then
            (if rawget tbl (LString key) = LNil then Panic ''invalid key to next''
             else Unmodelled ''lua_next after lua_tolstring on a number key'')
          else copyTableToStructLoop F E h tbl fm fs es ref1 st1))"
  by pat_completeness auto
termination
  apply (relation "measures [case_sum
      (case_sum (\<lambda>(F, E, h, l, t, cur, st). 3 * F)
        (case_sum (\<lambda>(F, E, h, ptr, t, cur, st). 3 * F + 2)
                  (\<lambda>(F, E, h, tk, te, es, m, st). 3 * F + 1)))
      (case_sum
        (case_sum (\<lambda>(F, E, h, ptr, t, cur, st). 3 * F + 2)
                  (\<lambda>(F, E, h, tbl, te, i, n, elems, st). 3 * F + 1))
        (case_sum (\<lambda>(F, E, h, ptr, t, cur, st). 3 * F + 2)
                  (\<lambda>(F, E, h, tbl, fm, fs, es, ref, st). 3 * F + 1))),
     case_sum
      (case_sum (\<lambda>(F, E, h, l, t, cur, st). 0)
        (case_sum (\<lambda>(F, E, h, ptr, t, cur, st). 0)
                  (\<lambda>(F, E, h, tk, te, es, m, st). length es)))
      (case_sum
        (case_sum (\<lambda>(F, E, h, ptr, t, cur, st). 0)
                  (\<lambda>(F, E, h, tbl, te, i, n, elems, st). Suc n - i))
        (case_sum (\<lambda>(F, E, h, ptr, t, cur, st). 0)
                  (\<lambda>(F, E, h, tbl, fm, fs, es, ref, st). length es)))]")
  apply auto
  done

declare luaToGo.simps(2) [simp del] copyTableToMap.simps [simp del]
  copyTableToSlice.simps [simp del] copyTableToStruct.simps [simp del]
  copyTableToSliceLoop.simps [simp del]

text \<open>
  \<open>LuaToGo\<close> (line 588). The argument \<open>v\<close> is an interface value; \<open>a\<close> is the first
  address the allocator has free. The result is the error, what the destination
  \<open>*v\<close> holds afterwards (\<open>v\<close> itself when it is no pointer), and the next free
  address.
\<close>

definition LuaToGo :: "nat \<Rightarrow> env \<Rightarrow> ltable list \<Rightarrow> lval \<Rightarrow> gval \<Rightarrow> nat
    \<Rightarrow> (goError option \<times> gval \<times> nat) outcome" where
  "LuaToGo F E h l v a =
     (case valueOf v of (tv, pv, ro) \<Rightarrow>
        if kindOf tv \<noteq> PtrK then Ret (Some NotAPointer, pv, a)
        else case ptrElem (tv, pv, ro) of (t, cur, ro') \<Rightarrow>
          bind (luaToGo F E h l t cur \<lparr>visited = Map.empty, nextAddr = a\<rparr>)
            (\<lambda>(err, x, st). Ret (err, x, nextAddr st)))"


section \<open>A sample environment\<close>

text \<open>
  The concrete examples below need an environment. This one has the length operator
  return the first border of a table (the number of keys 1, 2, ... that are present
  without a gap), which is the border every table without holes has; a host program in
  which no type implements \<open>error\<close>; and \<open>LuaObject\<close> as a struct type, as the composite
  literal \<open>LuaObject{}\<close> of line 643 requires.
\<close>

fun prefixLen :: "ltable \<Rightarrow> nat \<Rightarrow> nat \<Rightarrow> nat" where
  "prefixLen t i 0 = i"
| "prefixLen t i (Suc f) = (if rawgeti t (Suc i) = LNil then i else prefixLen t (Suc i) f)"

definition firstBorder :: "ltable \<Rightarrow> nat" where
  "firstBorder t = prefixLen t 0 (length t)"

definition stdenv :: env where
  "stdenv = \<lparr>objlen = firstBorder, numfmt = (\<lambda>r. ''?''), f32 = (\<lambda>r. r),
     errorOf = (\<lambda>t v. None), tLuaObject = Named ''luar.LuaObject'' (StructOf []),
     luaObjectPush = (\<lambda>v. LNil), newLuaObject = (\<lambda>l. VPtr 1 (VStruct [])),
     hostCall = (\<lambda>f args. Some [])\<rparr>"

section \<open>Basic facts\<close>

lemma bind_eq_Ret: "bind m f = Ret y \<longleftrightarrow> (\<exists>x. m = Ret x \<and> f x = Ret y)"
  by (cases m) auto



lemma kind_cases_defs:
  "isFloatKind k = (k = Float64K \<or> k = Float32K)"
  "isIntKind k = (k = IntK \<or> k = Int8K \<or> k = Int16K \<or> k = Int32K \<or> k = Int64K)"
  "isUintKind k = (k = UintK \<or> k = Uint8K \<or> k = Uint16K \<or> k = Uint32K \<or> k = Uint64K)"
  "isComplexKind k = (k = Complex128K \<or> k = Complex64K)"
  by (auto simp: isFloatKind_def isIntKind_def isUintKind_def isComplexKind_def)


lemmas eval_lua =
  luaToGo.simps(2) copyTableToMap.simps copyTableToSlice.simps copyTableToStruct.simps
  copyTableToSliceLoop.simps LuaToGo_def setZero_def setValue_def cvtFloat_def cvtInt_def
  convertValue_def isNumericKind_def unsizedKind_def truncZero_def wrapInt_def wrapUint_def
  kind_cases_defs lTypename_def alloc_def record_visit_def luaIsEmpty_def holdsNull_def
  isNull_def NullT_def fieldsLookup_def rawgeti_def firstBorder_def invalidValue_def
  tslice_def tmap_def emptyInterface_def stdenv_def Let_def

section \<open>Proxy or copy\<close>
















section \<open>The destination of \<open>LuaToGo\<close>\<close>

text \<open>
  A destination that is no pointer (the nil interface included) is refused at once: no
  conversion is attempted, and the Lua value is not even looked at.
\<close>

lemma LuaToGo_not_a_pointer:
  "kindOf tv \<noteq> PtrK \<Longrightarrow> LuaToGo F E h l (VIface tv pv) a = Ret (Some NotAPointer, pv, a)"
  by (simp add: LuaToGo_def)

lemma LuaToGo_nil_interface:
  "LuaToGo F E h l VIfaceNil a = Ret (Some NotAPointer, VInvalid, a)"
  by (simp add: LuaToGo_def invalidValue_def)

text \<open>
  C8. The doc comment of \<open>LuaToGo\<close> (line 587) promises an error when \<open>v\<close> is not a
  non-nil pointer, and so does the claim. The test of line 592 looks at the kind only:
  a nil pointer passes it, \<open>value.Elem()\<close> is then the zero \<open>Value\<close>, and \<open>luaToGo\<close> is
  entered with it. For the Lua value nil, line 604 calls \<open>value.Type()\<close> on the zero
  \<open>Value\<close>, which panics: \<open>LuaToGo(L, idx, (*int)(nil))\<close> returns no error at all.
\<close>

theorem LuaToGo_nil_pointer_panics:
  "LuaToGo (Suc 0) stdenv [] LNil (VIface (PtrTo (Predeclared IntK)) (VPtr 0 VInvalid)) 1
     = Panic ''reflect: call of reflect.Value.Type on zero Value''"
  by (simp add: eval_lua)

section \<open>Userdata that is no proxy\<close>

text \<open>
  The test of line 643, \<open>kind != reflect.Interface || value.Type() != reflect.TypeOf(LuaObject{})\<close>,
  holds for every destination as soon as \<open>LuaObject\<close> is not an interface type, and the
  composite literal \<open>LuaObject{}\<close> is legal for no interface type. So every userdata that
  is no proxy is refused, and line 647, which wraps it into a \<open>LuaObject\<close>, is never
  reached.
\<close>

lemma luaToGo_plain_userdata:
  "kindOf (tLuaObject E) \<noteq> InterfaceK \<Longrightarrow>
   luaToGo (Suc F) E h (LUserdata p) t cur st = Ret (Some (LuaToGoError ''userdata'' t), cur, st)"
  by (auto simp: luaToGo.simps(2) lTypename_def)

text \<open>
  C9. The claim has such a userdata wrapped when the destination is the type of wrapped
  script objects. The code intends it (line 646: "Wrap the userdata into a LuaObject")
  and misses: with a destination of type \<open>LuaObject\<close>, and with one of type
  \<open>interface{}\<close>, \<open>luaToGo\<close> returns the type-mismatch error and leaves the destination
  as it was.
\<close>

theorem plain_userdata_never_wrapped:
  "luaToGo (Suc 0) stdenv [] (LUserdata 7) (tLuaObject stdenv) (VStruct []) st
     = Ret (Some (LuaToGoError ''userdata'' (tLuaObject stdenv)), VStruct [], st)
   \<and> luaToGo (Suc 0) stdenv [] (LUserdata 7) emptyInterface VIfaceNil st
     = Ret (Some (LuaToGoError ''userdata'' emptyInterface), VIfaceNil, st)"
  by (simp add: luaToGo_plain_userdata stdenv_def)

section \<open>Errors of element conversions\<close>

lemma copyTableToSlice_no_error:
  "copyTableToSlice F E h ptr t cur st = Ret (err, x, st') \<Longrightarrow> err = None"
  by (auto simp: copyTableToSlice.simps bind_eq_Ret Let_def split: prod.splits if_splits)

lemma copyTableToMap_no_error:
  "copyTableToMap F E h ptr t cur st = Ret (err, x, st') \<Longrightarrow> err = None"
  by (auto simp: copyTableToMap.simps bind_eq_Ret Let_def split: prod.splits if_splits)

lemma copyTableToStruct_no_error:
  "copyTableToStruct F E h ptr t cur st = Ret (err, x, st') \<Longrightarrow> err = None"
  by (auto simp: copyTableToStruct.simps bind_eq_Ret Let_def split: prod.splits if_splits)

lemma luaToGo_error_unchanged:
  assumes "luaToGo F E h l t cur st = Ret (Some e, x, st')"
  shows "x = cur \<and> st' = st"
proof (cases F)
  case 0
  with assms show ?thesis by simp
next
  case (Suc F')
  show ?thesis
  proof (cases "luaType l")
    case LUA_TTABLE
    then obtain ptr where l: "l = LTable ptr" by (cases l) auto
    from assms Suc l show ?thesis
      by (auto simp: luaToGo.simps(2) bind_eq_Ret Let_def
          dest: copyTableToSlice_no_error copyTableToMap_no_error copyTableToStruct_no_error
          split: option.splits ventry.splits if_splits)
  next
    case LUA_TUSERDATA
    with assms Suc show ?thesis
      by (auto simp: luaToGo.simps(2) bind_eq_Ret Let_def split: prod.splits option.splits if_splits)
  qed (use assms Suc in \<open>auto simp: luaToGo.simps(2) bind_eq_Ret Let_def split: if_splits\<close>)
qed


lemma structLoop_unexported:
  "luaType k \<noteq> LUA_TNUMBER \<Longrightarrow> fieldByName fs (fieldsLookup fm (toString E k)) = Some j \<Longrightarrow>
   \<not> fexported (fs ! j) \<Longrightarrow>
   copyTableToStructLoop F E h tbl fm fs ((k, v) # es) ref st
     = copyTableToStructLoop F E h tbl fm fs es ref st"
  by (simp add: Let_def)

lemma structLoop_set:
  "luaType k \<noteq> LUA_TNUMBER \<Longrightarrow> fieldByName fs (fieldsLookup fm (toString E k)) = Some j \<Longrightarrow>
   fexported (fs ! j) \<Longrightarrow>
   luaToGo F E h v (ftype (fs ! j)) (zero (ftype (fs ! j))) st = Ret (err, val, st1) \<Longrightarrow>
   copyTableToStructLoop F E h tbl fm fs ((k, v) # es) ref st
     = copyTableToStructLoop F E h tbl fm fs es (ref[j := val]) st1"
  by (simp add: Let_def)








lemma fieldByName_distinct:
  "distinct (map fname fs) \<Longrightarrow> j < length fs \<Longrightarrow> fieldByName fs (fname (fs ! j)) = Some j"
proof (induction fs arbitrary: j)
  case Nil
  then show ?case by simp
next
  case (Cons f fs)
  then show ?case by (cases j) (auto simp: image_iff)
qed


section \<open>The field mapping of a struct\<close>




section \<open>Failures of element conversions\<close>






section \<open>A struct field whose conversion fails\<close>

text \<open>
  C10. In the loop of \<open>copyTableToStruct\<close> (lines 569 to 578), when the key of an entry
  names a settable field and \<open>luaToGo\<close> fails on the entry's value, the error is dropped
  and \<open>f.Set(val)\<close> stores the fresh \<open>val\<close>, which the failed call left at the zero value:
  whatever the field held before (\<open>ref\<close> is arbitrary), it holds the zero value of its
  type afterwards, and the loop goes on as if nothing had failed. A table with that
  single entry converts with no error, to the struct whose field is zero.
\<close>

theorem failed_field_conversion_zeroes_field:
  assumes k: "luaType k \<noteq> LUA_TNUMBER"
    and j: "fieldByName fs (fieldsLookup fm (toString E k)) = Some j"
    and ex: "fexported (fs ! j)"
    and fail: "luaToGo F E h v (ftype (fs ! j)) (zero (ftype (fs ! j))) st = Ret (Some e, val, st1)"
  shows "copyTableToStructLoop F E h tbl fm fs ((k, v) # es) ref st
           = copyTableToStructLoop F E h tbl fm fs es (ref[j := zero (ftype (fs ! j))]) st
         \<and> (j < length ref \<longrightarrow> (ref[j := zero (ftype (fs ! j))]) ! j = zero (ftype (fs ! j)))
         \<and> (kindOf t = StructK \<and> fieldsT t = fs \<and> fm = fieldMapping fs Map.empty
              \<and> h ! ptr = [(k, v)] \<and> st = record_visit ptr InProgress (snd (alloc st0))
            \<longrightarrow> copyTableToStruct F E h ptr t cur st0
                  = Ret (None, VStruct ((zeroFields fs)[j := zero (ftype (fs ! j))]),
                         record_visit ptr
                           (Done (PtrTo t)
                              (VPtr (nextAddr st0)
                                 (VStruct ((zeroFields fs)[j := zero (ftype (fs ! j))])))) st))"
proof -
  from luaToGo_error_unchanged [OF fail] have u: "val = zero (ftype (fs ! j))" "st1 = st" by auto
  have step: "copyTableToStructLoop F E h tbl' fm fs ((k, v) # es') ref' st
           = copyTableToStructLoop F E h tbl' fm fs es' (ref'[j := zero (ftype (fs ! j))]) st"
    for tbl' es' ref'
    using structLoop_set [OF k j ex fail] u by simp
  have whole: "copyTableToStruct F E h ptr t cur st0
                  = Ret (None, VStruct ((zeroFields fs)[j := zero (ftype (fs ! j))]),
                         record_visit ptr
                           (Done (PtrTo t)
                              (VPtr (nextAddr st0)
                                 (VStruct ((zeroFields fs)[j := zero (ftype (fs ! j))])))) st)"
    if a: "kindOf t = StructK" "fieldsT t = fs" "fm = fieldMapping fs Map.empty"
      "h ! ptr = [(k, v)]" "st = record_visit ptr InProgress (snd (alloc st0))"
  proof -
    have "copyTableToStructLoop F E h [(k, v)] fm fs [(k, v)] (zeroFields fs) st
            = Ret ((zeroFields fs)[j := zero (ftype (fs ! j))], st)"
      by (simp only: step) simp
    with a show ?thesis
      by (simp add: copyTableToStruct.simps Let_def luaIsEmpty_def alloc_def setValue_def)
  qed
  from step whole show ?thesis by simp
qed

theorem failed_field_conversion_zeroes_field_witness:
  "luaToGo (Suc 0) stdenv [[(LString ''k'', LString ''x'')]] (LString ''x'') (Predeclared IntK)
       (VInt 0) \<lparr>visited = [0 \<mapsto> InProgress], nextAddr = 2\<rparr>
     = Ret (Some (LuaToGoError ''string'' (Predeclared IntK)), VInt 0,
            \<lparr>visited = [0 \<mapsto> InProgress], nextAddr = 2\<rparr>)
   \<and> copyTableToStructLoop (Suc 0) stdenv [[(LString ''k'', LString ''x'')]] []
       (fieldMapping [Field ''K'' ''k'' True (Predeclared IntK)] Map.empty)
       [Field ''K'' ''k'' True (Predeclared IntK)] [(LString ''k'', LString ''x'')] [VInt 7]
       \<lparr>visited = [0 \<mapsto> InProgress], nextAddr = 2\<rparr>
     = Ret ([VInt 0], \<lparr>visited = [0 \<mapsto> InProgress], nextAddr = 2\<rparr>)
   \<and> copyTableToStruct (Suc 0) stdenv [[(LString ''k'', LString ''x'')]] 0
       (StructOf [Field ''K'' ''k'' True (Predeclared IntK)]) (VStruct [VInt 7])
       \<lparr>visited = Map.empty, nextAddr = 1\<rparr>
     = Ret (None, VStruct [VInt 0],
            \<lparr>visited = [0 \<mapsto> Done (PtrTo (StructOf [Field ''K'' ''k'' True (Predeclared IntK)]))
                                   (VPtr 1 (VStruct [VInt 0]))],
             nextAddr = 2\<rparr>)"
proof -
  let ?s = "\<lparr>visited = [0 \<mapsto> InProgress], nextAddr = 2\<rparr>"
  let ?fs = "[Field ''K'' ''k'' True (Predeclared IntK)]"
  have b: "luaToGo (Suc 0) stdenv [[(LString ''k'', LString ''x'')]] (LString ''x'')
        (ftype (?fs ! 0)) (zero (ftype (?fs ! 0))) ?s
     = Ret (Some (LuaToGoError ''string'' (Predeclared IntK)), VInt 0, ?s)"
    by (simp add: eval_lua)
  have j: "fieldByName ?fs (fieldsLookup (fieldMapping ?fs Map.empty) (toString stdenv (LString ''k'')))
      = Some 0"
    by (simp add: fieldsLookup_def)
  from failed_field_conversion_zeroes_field [where k = "LString ''k''" and fs = ?fs
      and fm = "fieldMapping ?fs Map.empty" and E = stdenv and j = 0 and F = "Suc 0"
      and h = "[[(LString ''k'', LString ''x'')]]" and v = "LString ''x''" and st = ?s
      and e = "LuaToGoError ''string'' (Predeclared IntK)" and val = "VInt 0" and ?st1.0 = ?s
      and tbl = "[]" and es = "[]" and ref = "[VInt 7]" and t = "StructOf ?fs" and ptr = 0
      and ?st0.0 = "\<lparr>visited = Map.empty, nextAddr = 1\<rparr>" and cur = "VStruct [VInt 7]",
      OF _ j _ b] b
  show ?thesis
    by (simp add: eval_lua)
qed

section \<open>The function bridge\<close>

text \<open>
  The Lua stack of a call: the arguments, the first at index 1. An index beyond the top
  holds no value.
\<close>

definition stackAt :: "lval list \<Rightarrow> nat \<Rightarrow> lval" where
  "stackAt stack i = (if 1 \<le> i \<and> i \<le> length stack then stack ! (i - 1) else LNone)"

text \<open>
  \<open>RaiseError\<close> (line 713) panics with a Lua error; the model keeps the format string.
\<close>

definition RaiseError :: "string \<Rightarrow> 'a outcome" where
  "RaiseError msg = Panic msg"

text \<open>
  One argument (lines 252 to 257 and 263 to 268): \<open>reflect.New(t)\<close> takes the next free
  address, \<open>LuaToGo\<close> fills what it points to, and an error is raised as a Lua error.
\<close>

definition convertArg :: "nat \<Rightarrow> env \<Rightarrow> ltable list \<Rightarrow> lval \<Rightarrow> gtype \<Rightarrow> nat \<Rightarrow> (gval \<times> nat) outcome" where
  "convertArg F E h l t a =
     bind (LuaToGo F E h l (VIface (PtrTo t) (VPtr a (zero t))) (Suc a)) (\<lambda>(err, x, a').
       case err of
         Some e \<Rightarrow> RaiseError ''cannot convert go function arguments''
       | None \<Rightarrow> Ret (x, a'))"

text \<open>The loop of line 251 over the declared parameters, from index \<open>i\<close> of the stack on.\<close>

fun declaredArgs :: "nat \<Rightarrow> env \<Rightarrow> ltable list \<Rightarrow> lval list \<Rightarrow> nat \<Rightarrow> gtype list \<Rightarrow> nat
    \<Rightarrow> (gval list \<times> nat) outcome" where
  "declaredArgs F E h stack i [] a = Ret ([], a)"
| "declaredArgs F E h stack i (t # ts) a =
     bind (convertArg F E h (stackAt stack i) t a) (\<lambda>(x, a1).
     bind (declaredArgs F E h stack (i + 1) ts a1) (\<lambda>(xs, a2).
     Ret (x # xs, a2)))"

text \<open>The loop of line 262 over the extra arguments: \<open>for i := len(tArgs) + 1; i <= n; i++\<close>\<close>

function variadicArgs :: "nat \<Rightarrow> env \<Rightarrow> ltable list \<Rightarrow> lval list \<Rightarrow> nat \<Rightarrow> nat \<Rightarrow> gtype
    \<Rightarrow> gval list \<Rightarrow> nat \<Rightarrow> (gval list \<times> nat) outcome" where
  "variadicArgs F E h stack i n lastT args a =
     (if i \<le> n then
        bind (convertArg F E h (stackAt stack i) lastT a) (\<lambda>(x, a1).
        variadicArgs F E h stack (i + 1) n lastT (args @ [x]) a1)
      else Ret (args, a))"
  by pat_completeness auto
termination
  by (relation "measure (\<lambda>(F, E, h, stack, i, n, lastT, args, a). Suc n - i)") auto

declare variadicArgs.simps [simp del]

text \<open>\<open>funT.IsVariadic()\<close>, \<open>funT.NumIn()\<close> with \<open>funT.In(i)\<close>\<close>

fun isVariadic :: "gtype \<Rightarrow> bool" where
  "isVariadic (Named n u) = isVariadic u"
| "isVariadic (FuncOf ins va outs) = va"
| "isVariadic t = False"

fun insOf :: "gtype \<Rightarrow> gtype list" where
  "insOf (Named n u) = insOf u"
| "insOf (FuncOf ins va outs) = ins"
| "insOf t = []"

text \<open>
  The arguments the closure of line 239 collects (lines 240 to 271), together with the
  captured variable \<open>tArgs\<close> as the closure leaves it. \<open>tArgs\<close> is shortened for a
  variadic function and restored at line 270, which a Lua error raised in between
  skips.
\<close>

definition collectArgs :: "nat \<Rightarrow> env \<Rightarrow> gtype \<Rightarrow> gtype list \<Rightarrow> ltable list \<Rightarrow> lval list \<Rightarrow> nat
    \<Rightarrow> (gval list \<times> nat) outcome \<times> gtype list" where
  "collectArgs F E funT tArgs h stack a =
     (let origTArgs = tArgs in
      if isVariadic funT then
        (if tArgs = [] then (Panic ''runtime error: index out of range'', tArgs)
         else if kindOf (last tArgs) \<notin> {ArrayK, ChanK, MapK, PtrK, SliceK}
           then (Panic ''reflect: Elem of invalid type'', tArgs)
         else
           (let lastT = elemT (last tArgs); tArgs1 = butlast tArgs in
            case declaredArgs F E h stack 1 tArgs1 a of
              Ret (args, a1) \<Rightarrow>
                (case variadicArgs F E h stack (length tArgs1 + 1) (length stack) lastT args a1 of
                   Ret r \<Rightarrow> (Ret r, origTArgs)
                 | Panic e \<Rightarrow> (Panic e, tArgs1)
                 | OutOfFuel \<Rightarrow> (OutOfFuel, tArgs1)
                 | Unmodelled e \<Rightarrow> (Unmodelled e, tArgs1))
            | Panic e \<Rightarrow> (Panic e, tArgs1)
            | OutOfFuel \<Rightarrow> (OutOfFuel, tArgs1)
            | Unmodelled e \<Rightarrow> (Unmodelled e, tArgs1)))
      else (declaredArgs F E h stack 1 tArgs a, tArgs))"

text \<open>
  \<open>funv.Call(args)\<close> of package reflect: what the function receives. For a variadic
  function the arguments beyond the declared ones are put into a fresh slice, which is
  the last argument.
\<close>

definition callIn :: "gtype \<Rightarrow> gval list \<Rightarrow> nat \<Rightarrow> (gval list \<times> nat) outcome" where
  "callIn funT args a =
     (let n = length (insOf funT) in
      if isVariadic funT then
        (if length args < n - 1 then Panic ''reflect: Call with too few input arguments''
         else Ret (take (n - 1) args @ [VSlice a (drop (n - 1) args)], Suc a))
      else if length args \<noteq> n then Panic ''reflect: Call with wrong number of input arguments''
      else Ret (args, a))"

text \<open>
  \<open>callGo\<close> (line 217): a panic of the called function is recovered and raised as a Lua
  error.
\<close>

definition callGo :: "env \<Rightarrow> gtype \<Rightarrow> gval \<Rightarrow> gval list \<Rightarrow> nat \<Rightarrow> ((gtype \<times> gval) list \<times> nat) outcome" where
  "callGo E funT fun args a =
     (case callIn funT args a of
        Ret (ins, a1) \<Rightarrow>
          (case hostCall E fun ins of
             None \<Rightarrow> RaiseError ''error %s''
           | Some resV \<Rightarrow> Ret (resV, a1))
      | Panic e \<Rightarrow> RaiseError ''error %s''
      | OutOfFuel \<Rightarrow> OutOfFuel
      | Unmodelled e \<Rightarrow> Unmodelled e)"

text \<open>
  The results (lines 273 to 284): a struct is put behind a new pointer, and every result
  is pushed with \<open>GoToLuaProxy\<close>, which here receives a \<open>reflect.Value\<close>.
\<close>

fun pushResults :: "env \<Rightarrow> (gtype \<times> gval) list \<Rightarrow> ltable list \<Rightarrow> nat
    \<Rightarrow> (lval list \<times> ltable list \<times> nat) outcome" where
  "pushResults E [] h a = Ret ([], h, a)"
| "pushResults E (tv # resV) h a =
     (case (if kindOf (fst tv) = StructK then (PtrTo (fst tv), VPtr a (snd tv), Suc a)
            else (fst tv, snd tv, a)) of (t, v, a1) \<Rightarrow>
        bind (goToLua E t v False True (newVisitor h)) (\<lambda>(l, st).
        bind (pushResults E resV (heap st) a1) (\<lambda>(ls, h2, a2).
        Ret (l # ls, h2, a2))))"

text \<open>
  The closure that \<open>goLuaFunc\<close> returns, called on a stack of arguments: the values it
  pushes (their number is what it returns), the new heap, the next free address, and
  the captured \<open>tArgs\<close> afterwards.
\<close>

definition goLuaFuncCall :: "nat \<Rightarrow> env \<Rightarrow> gtype \<Rightarrow> gval \<Rightarrow> gtype list \<Rightarrow> ltable list \<Rightarrow> lval list
    \<Rightarrow> nat \<Rightarrow> (lval list \<times> ltable list \<times> nat) outcome \<times> gtype list" where
  "goLuaFuncCall F E funT fun tArgs h stack a =
     (case collectArgs F E funT tArgs h stack a of (r, tArgs') \<Rightarrow>
        (bind r (\<lambda>(args, a1).
         bind (callGo E funT fun args a1) (\<lambda>(resV, a2).
         pushResults E resV h a2)), tArgs'))"


lemma callGo_received:
  "callGo E funT fun args a = Ret (resV, a') \<Longrightarrow>
   \<exists>ins. callIn funT args a = Ret (ins, a') \<and> hostCall E fun ins = Some resV"
  by (auto simp: callGo_def RaiseError_def split: outcome.splits option.splits)






section \<open>What the visited sets record\<close>

text \<open>
  \<open>grows h st st'\<close>: every table that \<open>st'\<close> has recorded and \<open>st\<close> had not is a
  table of the heap \<open>h\<close> with at least one entry.
\<close>

definition grows :: "ltable list \<Rightarrow> cstate \<Rightarrow> cstate \<Rightarrow> bool" where
  "grows h st st' = (\<forall>p. visited st' p \<noteq> None \<longrightarrow> visited st p \<noteq> None \<or> h ! p \<noteq> [])"



lemma grows_alloc: "grows h st (snd (alloc st))"
  by (simp add: grows_def alloc_def)


lemma grows_record_again: "grows h st st' \<Longrightarrow> h ! ptr \<noteq> [] \<Longrightarrow> grows h st (record_visit ptr e st')"
  by (auto simp: grows_def record_visit_def)














end
